theory Spec2Isabelle
  imports Main "HOL-Library.Sublist"
begin

section \<open>OMF linked-data emitter (C/plugins/north/OMF/linkdata.cpp)\<close>

text \<open>
  The emitter keeps three memoisation tables and a buffer of pending container
  definitions. \<open>processReading\<close> builds the text of one north-bound fragment by a
  series of \<open>outData.append\<close> calls; every run of appends that belongs to one OMF
  record is kept here as one \<open>omf_item\<close>, and \<open>render_item\<close> gives the bytes
  that the source appends for it. In the same way the pending-container string
  \<open>m_containers\<close> is kept as the list of container definitions, and
  \<open>render_containers\<close> gives the comma separated text the source builds.
\<close>

datatype dp_tag = T_STRING | T_INTEGER | T_FLOAT | T_OTHER nat

record datapoint =
  dp_name :: string
  dp_type :: dp_tag
  dp_text :: string   \<comment> \<open>the result of \<open>getData().toString()\<close>\<close>

record reading =
  r_asset :: string
  r_data :: "datapoint list"
  r_usertime :: string   \<comment> \<open>the result of \<open>getAssetDateUserTime(FMT_STANDARD)\<close>\<close>

datatype omf_hint = OMFTagNameHint string | OMFTagHint string | OMFOtherHint string

record container =
  c_id :: string
  c_typeid :: string
  c_name :: string

datatype omf_item =
    AssetRec string
  | Delim
  | LinkRec string string
  | ValueRec string string string string

record emitter =
  assetSent :: "string \<rightharpoonup> bool"
  containerSent :: "string \<rightharpoonup> string"
  linkSent :: "string \<rightharpoonup> bool"
  containers :: "container list"

definition new_emitter :: emitter where
  "new_emitter = \<lparr>assetSent = Map.empty, containerSent = Map.empty,
                   linkSent = Map.empty, containers = []\<rparr>"

text \<open>Modelled from the spec: the constant \<open>OMF_HINT\<close> of OMFHint.h, the name of
  the reserved \<open>OMFHint\<close> datapoint.\<close>

definition OMF_HINT :: string where
  "OMF_HINT = ''OMFHint''"

definition render_item :: "omf_item \<Rightarrow> string" where
  \<open>render_item it = (case it of
      AssetRec a \<Rightarrow>
        ''{ "typeid":"FledgeAsset", "values":[ { "AssetId":"'' @ a @ ''","Name":"'' @ a
          @ ''"'' @ ''} ] }''
    | Delim \<Rightarrow> '',''
    | LinkRec a l \<Rightarrow>
        ''{ "typeid":"__Link",'' @ ''"values":[ { "source" : {'' @ ''"typeid": "FledgeAsset",''
          @ ''"index":"'' @ a @ ''" }, "target" : {'' @ ''"containerid" : "'' @ l
          @ ''" } } ] },''
    | ValueRec l bt v t \<Rightarrow>
        ''{"containerid": "'' @ l @ ''", "values": [{'' @ ''"'' @ bt @ ''": '' @ v @ '', ''
          @ ''"Time": "'' @ t @ ''Z'' @ ''"'' @ ''} ] }'')\<close>

definition render_out :: "omf_item list \<Rightarrow> string" where
  "render_out items = concat (map render_item items)"

definition render_container :: "container \<Rightarrow> string" where
  \<open>render_container c =
     ''{ "id" : "'' @ c_id c @ ''", "typeid" : "'' @ c_typeid c @ ''", "name" : "''
       @ c_name c @ ''", "datasource" : "Fledge" }''\<close>

fun render_containers :: "container list \<Rightarrow> string" where
  "render_containers [] = []"
| "render_containers [c] = render_container c"
| "render_containers (c # cs) = render_container c @ '','' @ render_containers cs"

text \<open>\<open>OMFLinkedData::sendContainer\<close>: the base type of the datapoint, and the
  container definition appended to the pending buffer. An unsupported type
  returns the empty base type and appends nothing.\<close>

definition sendContainer :: "string \<Rightarrow> datapoint \<Rightarrow> emitter \<Rightarrow> string \<times> emitter" where
  "sendContainer linkName dp st =
     (case dp_type dp of
        T_STRING \<Rightarrow>
          (''String'', st\<lparr>containers := containers st @
              [\<lparr>c_id = linkName, c_typeid = ''String'', c_name = dp_name dp\<rparr>]\<rparr>)
      | T_INTEGER \<Rightarrow>
          (''Double'', st\<lparr>containers := containers st @
              [\<lparr>c_id = linkName, c_typeid = ''Double'', c_name = dp_name dp\<rparr>]\<rparr>)
      | T_FLOAT \<Rightarrow>
          (''Double'', st\<lparr>containers := containers st @
              [\<lparr>c_id = linkName, c_typeid = ''Double'', c_name = dp_name dp\<rparr>]\<rparr>)
      | T_OTHER _ \<Rightarrow> ([], st))"

text \<open>The hint loop at the head of \<open>processReading\<close>: every tag-name or tag hint
  overrides the asset name, the last one wins. A null \<open>hints\<close> pointer is
  \<open>None\<close>.\<close>

fun apply_hint :: "string \<Rightarrow> omf_hint \<Rightarrow> string" where
  "apply_hint a (OMFTagNameHint h) = h"
| "apply_hint a (OMFTagHint h) = h"
| "apply_hint a (OMFOtherHint h) = a"

definition hinted_name :: "string \<Rightarrow> omf_hint list option \<Rightarrow> string" where
  "hinted_name a hints = (case hints of None \<Rightarrow> a | Some hs \<Rightarrow> foldl apply_hint a hs)"

text \<open>One iteration of the datapoint loop. The loop state is the output built so
  far, the \<open>needDelim\<close> flag and the emitter. The function \<open>isTypeSupported\<close> is
  declared outside the given sources and is a parameter.\<close>

definition dp_step ::
  "(dp_tag \<Rightarrow> bool) \<Rightarrow> string \<Rightarrow> string \<Rightarrow> omf_item list \<times> bool \<times> emitter \<Rightarrow> datapoint
     \<Rightarrow> omf_item list \<times> bool \<times> emitter" where
  "dp_step isTypeSupported assetName userTime s dp =
     (case s of (out, needDelim, st) \<Rightarrow>
        if dp_name dp = OMF_HINT then (out, needDelim, st)
        else if \<not> isTypeSupported (dp_type dp) then (out, needDelim, st)
        else
          let out1 = (if needDelim then out @ [Delim] else out);
              link = assetName @ ''_'' @ dp_name dp;
              (baseType, st1) =
                (case containerSent st link of
                   None \<Rightarrow>
                     (case sendContainer link dp st of (bt, s1) \<Rightarrow>
                        (bt, s1\<lparr>containerSent := (containerSent s1)(link \<mapsto> bt)\<rparr>))
                 | Some bt \<Rightarrow> (bt, st))
          in if baseType = [] then (out1, True, st1)
             else
               let (outnew, stnew) =
                     (case linkSent st1 link of
                        None \<Rightarrow> (out1 @ [LinkRec assetName link],
                                 st1\<lparr>linkSent := (linkSent st1)(link \<mapsto> True)\<rparr>)
                      | Some _ \<Rightarrow> (out1, st1))
               in (outnew @ [ValueRec link baseType (dp_text dp) userTime], True, stnew))"

definition processReading ::
  "(dp_tag \<Rightarrow> bool) \<Rightarrow> reading \<Rightarrow> omf_hint list option \<Rightarrow> emitter
     \<Rightarrow> omf_item list \<times> emitter" where
  "processReading isTypeSupported rd hints st =
     (let assetName = hinted_name (r_asset rd) hints;
          s0 = (case assetSent st assetName of
                  None \<Rightarrow> ([AssetRec assetName], True,
                           st\<lparr>assetSent := (assetSent st)(assetName \<mapsto> True)\<rparr>)
                | Some _ \<Rightarrow> ([], False, st))
      in case foldl (dp_step isTypeSupported assetName (r_usertime rd)) s0 (r_data rd) of
           (out, _, st') \<Rightarrow> (out, st'))"

text \<open>A sequence of \<open>processReading\<close> calls on one emitter: the items of all the
  returned fragments, in order, and the final emitter.\<close>

fun process_all ::
  "(dp_tag \<Rightarrow> bool) \<Rightarrow> (reading \<times> omf_hint list option) list \<Rightarrow> emitter
     \<Rightarrow> omf_item list \<times> emitter" where
  "process_all supp [] st = ([], st)"
| "process_all supp (c # cs) st =
     (case processReading supp (fst c) (snd c) st of (out, st1) \<Rightarrow>
        (case process_all supp cs st1 of (outs, stnew) \<Rightarrow> (out @ outs, stnew)))"

text \<open>\<open>OMFLinkedData::flushContainers\<close>. The sender is the outcome of the one
  \<open>sendRequest\<close> call: a status code, the \<open>BadRequest\<close> exception or another
  exception. The result is the returned flag, the requests made (the payloads
  posted) and the emitter.\<close>

datatype http_outcome = HttpStatus int | BadRequest string | OtherException string

definition flushContainers ::
  "(string \<Rightarrow> http_outcome) \<Rightarrow> emitter \<Rightarrow> bool \<times> string list \<times> emitter" where
  "flushContainers sendRequest st =
     (if containers st = [] then (True, [], st)
      else
        let payload = ''['' @ render_containers (containers st) @ '']'';
            st1 = st\<lparr>containers := []\<rparr>
        in case sendRequest payload of
             HttpStatus res \<Rightarrow>
               if \<not> (res \<ge> 200 \<and> res \<le> 299) then (False, [payload], st1)
               else (True, [payload], st1)
           | BadRequest _ \<Rightarrow> (False, [payload], st1)
           | OtherException _ \<Rightarrow> (False, [payload], st1))"

text \<open>Vocabulary for the emission properties: which items are the asset record of
  an asset, the link record of a link name, which containers define a link name,
  and how many emissions a memoisation table still allows for a key (one when the
  key is absent, none when it is present).\<close>

definition is_asset :: "string \<Rightarrow> omf_item \<Rightarrow> bool" where
  "is_asset a i = (i = AssetRec a)"

definition is_link :: "string \<Rightarrow> omf_item \<Rightarrow> bool" where
  "is_link l i = (case i of LinkRec _ l' \<Rightarrow> l' = l | _ \<Rightarrow> False)"

definition has_id :: "string \<Rightarrow> container \<Rightarrow> bool" where
  "has_id l c = (c_id c = l)"

definition budget :: "('a \<rightharpoonup> 'b) \<Rightarrow> 'a \<Rightarrow> nat" where
  "budget m k = (case m k of None \<Rightarrow> 1 | Some _ \<Rightarrow> 0)"



text \<open>Sample inputs: the support test of the spec (String, Integer and Float
  are supported), the reading of the memoisation scenario and a reading whose
  datapoints are all skipped.\<close>

definition demo_supported :: "dp_tag \<Rightarrow> bool" where
  "demo_supported t = (case t of T_OTHER _ \<Rightarrow> False | _ \<Rightarrow> True)"

definition demo_reading :: reading where
  "demo_reading = \<lparr>r_asset = ''sensor'',
      r_data = [\<lparr>dp_name = ''temp'', dp_type = T_FLOAT, dp_text = ''21.5''\<rparr>],
      r_usertime = ''2024-01-02 03:04:05.100000''\<rparr>"

definition skipped_reading :: reading where
  "skipped_reading = \<lparr>r_asset = ''pump'',
      r_data = [\<lparr>dp_name = ''OMFHint'', dp_type = T_STRING, dp_text = ''x''\<rparr>,
                \<lparr>dp_name = ''image'', dp_type = T_OTHER 0, dp_text = ''''\<rparr>],
      r_usertime = ''2024-01-02 03:04:05.100000''\<rparr>"

section \<open>LazyJSON scanner (C/common/lazyjson.cpp)\<close>

text \<open>
  A JSON document is a C string: the characters of \<open>doc\<close> followed by the
  terminating NUL. A \<open>const char *\<close> into the document is the index of the
  character it points at; index \<open>length doc\<close> is the terminator, and reading
  beyond it is outside the buffer. Documents and attribute names hold no NUL
  character.
\<close>

definition cchar :: "string \<Rightarrow> nat \<Rightarrow> char" where
  "cchar doc i = (if i < length doc then doc ! i else CHR 0x00)"

definition isspace :: "char \<Rightarrow> bool" where
  "isspace c = (c = CHR '' '' \<or> c = CHR 0x09 \<or> c = CHR 0x0A \<or> c = CHR 0x0B
                \<or> c = CHR 0x0C \<or> c = CHR 0x0D)"

record LazyJSONState =
  inObject :: bool
  inArray :: bool
  object :: nat
  objectEnd :: "nat option"

text \<open>\<open>LazyJSON::objectEnd\<close>: the loop over the characters from \<open>start\<close>, here
  over the rest of the document with the index of its first character. The
  result is the index of the closing bracket, or \<open>None\<close> for NULL.\<close>

fun objectEnd_loop :: "char \<Rightarrow> char \<Rightarrow> string \<Rightarrow> nat \<Rightarrow> int \<Rightarrow> bool \<Rightarrow> bool \<Rightarrow> nat option" where
  "objectEnd_loop st ed [] p nested quoted escaped = None"
| "objectEnd_loop st ed (c # cs) p nested quoted escaped =
     (if c = CHR 0x22 \<and> escaped = False then
        objectEnd_loop st ed cs (p + 1) nested (\<not> quoted) False
      else if c = CHR 0x5C \<and> escaped = False then
        objectEnd_loop st ed cs (p + 1) nested quoted True
      else if quoted = False \<and> c = st then
        objectEnd_loop st ed cs (p + 1) (nested + 1) quoted False
      else if quoted = False \<and> c = ed then
        (if nested - 1 = 0 then Some p
         else objectEnd_loop st ed cs (p + 1) (nested - 1) quoted False)
      else objectEnd_loop st ed cs (p + 1) nested quoted False)"

definition objectEnd_of :: "string \<Rightarrow> nat \<Rightarrow> nat option" where
  "objectEnd_of doc start =
     (if cchar doc start = CHR ''[''
      then objectEnd_loop (CHR ''['') (CHR '']'') (drop start doc) start 0 False False
      else objectEnd_loop (CHR ''{'') (CHR ''}'') (drop start doc) start 0 False False)"

text \<open>\<open>LazyJSON::skipSpace\<close> as used by the constructor: the index of the first
  character that is not white space.\<close>

definition skipSpace :: "string \<Rightarrow> nat" where
  "skipSpace doc = length (takeWhile isspace doc)"

text \<open>The constructor \<open>LazyJSON(const char *str)\<close>: the state it pushes. The
  field \<open>objectEnd\<close> is set only when the document starts an object.\<close>

definition LazyJSON :: "string \<Rightarrow> LazyJSONState" where
  "LazyJSON doc =
     (let m_str = skipSpace doc in
      \<lparr>inObject = (cchar doc m_str = CHR ''{''),
       inArray = (cchar doc m_str = CHR ''[''),
       object = m_str,
       objectEnd = (if cchar doc m_str = CHR ''{'' then objectEnd_of doc m_str else None)\<rparr>)"

text \<open>\<open>LazyJSON::getObject\<close>: the state pushed for the object at \<open>p\<close>, or
  \<open>None\<close> when \<open>p\<close> is not at an opening brace.\<close>

definition getObject :: "string \<Rightarrow> nat \<Rightarrow> LazyJSONState option" where
  "getObject doc p =
     (if cchar doc p \<noteq> CHR ''{'' then None
      else Some \<lparr>inObject = True, inArray = False, object = p, objectEnd = objectEnd_of doc p\<rparr>)"

text \<open>The C library's \<open>strncmp(a, b, n) == 0\<close> on two C strings, given by their
  characters before the terminator.\<close>

fun strncmp_eq :: "string \<Rightarrow> string \<Rightarrow> nat \<Rightarrow> bool" where
  "strncmp_eq a b 0 = True"
| "strncmp_eq [] [] (Suc n) = True"
| "strncmp_eq [] (y # ys) (Suc n) = False"
| "strncmp_eq (x # xs) [] (Suc n) = False"
| "strncmp_eq (x # xs) (y # ys) (Suc n) = (x = y \<and> strncmp_eq xs ys n)"

datatype cursor = NULL | Ptr nat | PastTerminator

text \<open>The scan after a match: skip white space and colons, stopping at the
  terminator.\<close>

function skip_to_value :: "string \<Rightarrow> nat \<Rightarrow> nat" where
  "skip_to_value doc p =
     (if cchar doc p \<noteq> CHR 0x00 \<and> (isspace (cchar doc p) \<or> cchar doc p = CHR '':'')
      then skip_to_value doc (p + 1) else p)"
  by pat_completeness auto

termination
  by (relation "measure (\<lambda>(doc, p). length doc - p)") (auto simp: cchar_def split: if_splits)

declare skip_to_value.simps [simp del]

text \<open>The search loop of \<open>LazyJSON::getAttribute\<close>: \<open>p\<close> runs from the start of
  the frame while it is below the frame's end.\<close>

function attribute_loop :: "string \<Rightarrow> string \<Rightarrow> nat \<Rightarrow> nat \<Rightarrow> nat \<Rightarrow> cursor" where
  "attribute_loop doc searchFor len oe p =
     (if p < oe then
        (if strncmp_eq (drop p doc) searchFor len then
           (if p + len + 2 > length doc then PastTerminator
            else Ptr (skip_to_value doc (p + len + 2)))
         else attribute_loop doc searchFor len oe (p + 1))
      else NULL)"
  by pat_completeness auto

termination
  by (relation "measure (\<lambda>(doc, searchFor, len, oe, p). oe - p)") auto

declare attribute_loop.simps [simp del]

text \<open>\<open>LazyJSON::getAttribute\<close> in the state \<open>m_state\<close>. A NULL \<open>objectEnd\<close>
  compares below every pointer, so the loop is not entered.\<close>

definition getAttribute :: "string \<Rightarrow> LazyJSONState \<Rightarrow> string \<Rightarrow> cursor" where
  "getAttribute doc m_state name =
     (if \<not> inObject m_state then NULL
      else
        let len = length name;
            searchFor = [CHR 0x22] @ name @ [CHR 0x22]
        in case objectEnd m_state of
             None \<Rightarrow> NULL
           | Some oe \<Rightarrow> attribute_loop doc searchFor len oe (object m_state))"

text \<open>Sample documents: an object whose only key is \<open>ab\<close>, and an object whose
  only key is \<open>k\<close>, with the string value \<open>ab\<close>.\<close>

definition doc_ab :: string where
  \<open>doc_ab = ''{"ab":1}''\<close>

definition doc_val :: string where
  \<open>doc_val = ''{"k":"ab"}''\<close>

section \<open>Storage engine: JSON payloads and the where clause (PostgreSQL connection)\<close>

text \<open>
  The payloads are parsed by rapidjson before the code under study looks at
  them, so the model starts from the parsed document. A number is an integer
  (rapidjson keeps integers exactly) or a double, given by its mantissa and its
  binary exponent. An accessor used on a value of
  the wrong kind, or \<open>operator[]\<close> on a missing member, trips a rapidjson
  assertion: that outcome is \<open>Abort\<close>. \<open>Fail op reason\<close> is a call of
  \<open>raiseError(op, reason)\<close> followed by \<open>return false\<close>.
\<close>

datatype jnumber = JInt int | JDbl int int

datatype json =
    JNull
  | JBool bool
  | JNumber jnumber
  | JString string
  | JArray "json list"
  | JObject "(string \<times> json) list"

datatype 'a outcome = Abort | Fail string string | Ok 'a

definition IsInt :: "json \<Rightarrow> bool" where
  "IsInt j = (case j of JNumber (JInt v) \<Rightarrow> - (2 ^ 31) \<le> v \<and> v < 2 ^ 31 | _ \<Rightarrow> False)"

definition IsInt64 :: "json \<Rightarrow> bool" where
  "IsInt64 j = (case j of JNumber (JInt v) \<Rightarrow> - (2 ^ 63) \<le> v \<and> v < 2 ^ 63 | _ \<Rightarrow> False)"

definition HasMember :: "(string \<times> json) list \<Rightarrow> string \<Rightarrow> bool" where
  "HasMember ms k = (map_of ms k \<noteq> None)"

definition GetString :: "json option \<Rightarrow> string outcome" where
  "GetString j = (case j of Some (JString s) \<Rightarrow> Ok s | _ \<Rightarrow> Abort)"

text \<open>The libraries behind the code that are not part of the sources: how many
  characters of a string \<open>strtod\<close> converts, and the text the SQL buffer
  appends for the double value of a number.\<close>

record clib =
  strtod_end :: "string \<Rightarrow> nat"
  double_text :: "jnumber \<Rightarrow> string"

text \<open>Modelled from the spec: the SQL buffer \<open>SQLBuffer\<close> of sql_buffer.h, an
  append-only text builder. It is kept as the text appended so far; integers are
  appended in decimal.\<close>

definition digit_char :: "nat \<Rightarrow> char" where
  "digit_char d = char_of (48 + d)"

function show_nat :: "nat \<Rightarrow> string" where
  "show_nat n = (if n < 10 then [digit_char n] else show_nat (n div 10) @ [digit_char (n mod 10)])"
  by pat_completeness auto

termination
  by (relation "measure id") auto

declare show_nat.simps [simp del]

definition show_int :: "int \<Rightarrow> string" where
  "show_int i = (if i < 0 then ''-'' @ show_nat (nat (- i)) else show_nat (nat i))"

text \<open>\<open>Connection::escape(const char *)\<close>: a string without a single quote is
  returned as it is; otherwise every single quote is doubled into a buffer of
  twice the string's length, which the result and its terminator overrun when
  every character is a quote (\<open>None\<close>).\<close>

definition escape :: "string \<Rightarrow> string option" where
  "escape str =
     (if CHR 0x27 \<notin> set str then Some str
      else if length (concat (map (\<lambda>c. if c = CHR 0x27 then [c, c] else [c]) str)) + 1
                > length str * 2 then None
      else Some (concat (map (\<lambda>c. if c = CHR 0x27 then [c, c] else [c]) str)))"

text \<open>The loop over the elements of an \<open>in\<close> list; \<open>field\<close> counts the
  elements appended so far.\<close>

fun in_elements :: "clib \<Rightarrow> string \<Rightarrow> nat \<Rightarrow> json list \<Rightarrow> string \<Rightarrow> string outcome" where
  \<open>in_elements lib cond field [] sql = Ok sql\<close>
| \<open>in_elements lib cond field (e # es) sql =
     (let sql1 = (if field \<noteq> 0 then sql @ '', '' else sql) in
      case e of
        JNumber n \<Rightarrow>
          (if IsInt e then in_elements lib cond (field + 1) es
                             (sql1 @ show_int (case n of JInt v \<Rightarrow> v | JDbl _ _ \<Rightarrow> 0))
           else if IsInt64 e then in_elements lib cond (field + 1) es
                             (sql1 @ show_int (case n of JInt v \<Rightarrow> v | JDbl _ _ \<Rightarrow> 0))
           else in_elements lib cond (field + 1) es (sql1 @ double_text lib n))
      | JString s \<Rightarrow>
          (case escape s of
             None \<Rightarrow> Abort
           | Some t \<Rightarrow> in_elements lib cond (field + 1) es (sql1 @ [CHR 0x27] @ t @ [CHR 0x27]))
      | _ \<Rightarrow> Fail ''where clause''
               (''The "value" of a "'' @ cond @ ''" condition array element must be ''
                @ ''a string, integer or double.''))\<close>

text \<open>The part of \<open>Connection::jsonWhereClause\<close> between the column name and
  the recursion: the comparison for the condition \<open>cond\<close> and the value.\<close>

definition where_condition :: "clib \<Rightarrow> string \<Rightarrow> json \<Rightarrow> string \<Rightarrow> string outcome" where
  \<open>where_condition lib cond val sql =
     (if cond = ''older'' then
        (case val of
           JNumber (JInt v) \<Rightarrow>
             if IsInt val then Ok (sql @ ''< now() - INTERVAL '' @ [CHR 0x27] @ show_int v @ '' seconds'' @ [CHR 0x27])
             else Fail ''where clause'' ''The "value" of an "older" condition must be an integer''
         | _ \<Rightarrow> Fail ''where clause'' ''The "value" of an "older" condition must be an integer'')
      else if cond = ''newer'' then
        (case val of
           JNumber (JInt v) \<Rightarrow>
             if IsInt val then Ok (sql @ ''> now() - INTERVAL '' @ [CHR 0x27] @ show_int v @ '' seconds'' @ [CHR 0x27])
             else Fail ''where clause'' ''The "value" of an "newer" condition must be an integer''
         | _ \<Rightarrow> Fail ''where clause'' ''The "value" of an "newer" condition must be an integer'')
      else if cond = ''in'' \<or> cond = ''not in'' then
        (case val of
           JArray (e # es) \<Rightarrow>
             (case in_elements lib cond 0 (e # es) (sql @ cond @ '' ( '') of
                Ok sql1 \<Rightarrow> Ok (sql1 @ '' )'')
              | Fail op msg \<Rightarrow> Fail op msg
              | Abort \<Rightarrow> Abort)
         | _ \<Rightarrow> Fail ''where clause''
                  (''The "value" of a "'' @ cond @ ''" condition must be an array ''
                   @ ''and must not be empty.''))
      else
        (case val of
           JNumber (JInt v) \<Rightarrow>
             if IsInt val then Ok (sql @ cond @ '' '' @ show_int v) else Ok (sql @ cond @ '' '')
         | JString s \<Rightarrow>
             (case escape s of
                None \<Rightarrow> Abort
              | Some t \<Rightarrow> Ok (sql @ cond @ '' '' @ [CHR 0x27] @ t @ [CHR 0x27]))
         | _ \<Rightarrow> Ok (sql @ cond @ '' '')))\<close>

text \<open>\<open>Connection::jsonWhereClause\<close>: the SQL text appended to \<open>sql\<close> for a
  where node, with the recursion into the \<open>and\<close> and the \<open>or\<close> member.\<close>

function jsonWhereClause :: "clib \<Rightarrow> json \<Rightarrow> string \<Rightarrow> string outcome" where
  \<open>jsonWhereClause lib whereClause sql =
     (case whereClause of
        JObject ms \<Rightarrow>
          if \<not> HasMember ms ''column'' then
            Fail ''where clause'' ''The "where" object is missing a "column" property''
          else if \<not> HasMember ms ''condition'' then
            Fail ''where clause'' ''The "where" object is missing a "condition" property''
          else if \<not> HasMember ms ''value'' then
            Fail ''where clause'' ''The "where" object is missing a "value" property''
          else
            (case GetString (map_of ms ''column'') of
               Ok whereColumnName \<Rightarrow>
                 (let sql1 = (if strtod_end lib whereColumnName < length whereColumnName
                              then sql @ [CHR 0x22] @ whereColumnName @ [CHR 0x22]
                              else sql @ whereColumnName) @ '' ''
                  in case GetString (map_of ms ''condition'') of
                       Ok cond \<Rightarrow>
                         (case where_condition lib cond (the (map_of ms ''value'')) sql1 of
                            Ok sql2 \<Rightarrow>
                              (case (case map_of ms ''and'' of
                                       Some a \<Rightarrow> jsonWhereClause lib a (sql2 @ '' AND '')
                                     | None \<Rightarrow> Ok sql2) of
                                 Ok sql3 \<Rightarrow>
                                   (case map_of ms ''or'' of
                                      Some b \<Rightarrow> jsonWhereClause lib b (sql3 @ '' OR '')
                                    | None \<Rightarrow> Ok sql3)
                               | Fail op msg \<Rightarrow> Fail op msg
                               | Abort \<Rightarrow> Abort)
                          | Fail op msg \<Rightarrow> Fail op msg
                          | Abort \<Rightarrow> Abort)
                     | Fail op msg \<Rightarrow> Fail op msg
                     | Abort \<Rightarrow> Abort)
             | Fail op msg \<Rightarrow> Fail op msg
             | Abort \<Rightarrow> Abort)
      | _ \<Rightarrow> Fail ''where clause'' ''The "where" property must be a JSON object'')\<close>
  by pat_completeness auto

termination
proof -
  have member_size: "size v < size (JObject ms)" if "map_of ms k = Some v"
    for ms :: "(string \<times> json) list" and k v
    using that by (induction ms) (auto split: if_splits)
  show ?thesis
    by (relation "measure (\<lambda>(lib, w, sql). size w)") (auto dest: member_size)
qed

declare jsonWhereClause.simps [simp del]

text \<open>The condition argument of the storage calls: an empty string, a text
  that rapidjson cannot parse, or a parsed document.\<close>

datatype payload = NoPayload | Unparsable | Parsed json

text \<open>The outcome of \<open>PQexec\<close>: the command succeeded and reports a number of
  affected rows, or any other status, with the connection's error message.\<close>

datatype pg_result = CommandOk nat | OtherStatus string

record call_result =
  returned :: int
  raised :: "(string \<times> string) list"
  executed :: "string list"

text \<open>\<open>Connection::deleteRows\<close>. The result is \<open>None\<close> when a rapidjson
  assertion stops the call, and otherwise the returned value, the errors raised
  and the statements passed to \<open>PQexec\<close>.\<close>

definition deleteRows ::
  "clib \<Rightarrow> (string \<Rightarrow> pg_result) \<Rightarrow> string \<Rightarrow> payload \<Rightarrow> call_result option" where
  \<open>deleteRows lib pqexec table condition =
     (let sql = ''DELETE FROM foglamp.'' @ table;
          run = (\<lambda>sql1.
                   let query = sql1 @ '';'' in
                   case pqexec query of
                     CommandOk n \<Rightarrow> Some \<lparr>returned = int n, raised = [], executed = [query]\<rparr>
                   | OtherStatus msg \<Rightarrow>
                       Some \<lparr>returned = - 1, raised = [(''delete'', msg)], executed = [query]\<rparr>)
      in case condition of
           NoPayload \<Rightarrow> run sql
         | Unparsable \<Rightarrow>
             Some \<lparr>returned = - 1, raised = [(''delete'', ''Failed to parse JSON payload'')],
                   executed = []\<rparr>
         | Parsed document \<Rightarrow>
             (case document of
                JObject ms \<Rightarrow>
                  if HasMember ms ''where'' then
                    (case jsonWhereClause lib (the (map_of ms ''where'')) (sql @ '' WHERE '') of
                       Ok sql1 \<Rightarrow> run sql1
                     | Fail op msg \<Rightarrow>
                         Some \<lparr>returned = - 1, raised = [(op, msg)], executed = []\<rparr>
                     | Abort \<Rightarrow> None)
                  else Some \<lparr>returned = - 1,
                             raised = [(''delete'', ''JSON does not contain where clause'')],
                             executed = []\<rparr>
              | _ \<Rightarrow> None))\<close>

text \<open>A sample library: \<open>strtod\<close> as the length of the leading digits and
  dots, and a fixed text for doubles.\<close>

definition demo_lib :: clib where
  "demo_lib = \<lparr>strtod_end = (\<lambda>s. length (takeWhile (\<lambda>c. c \<in> set ''0123456789.'') s)),
               double_text = (\<lambda>n. ''<double>'')\<rparr>"







definition where_in :: "string \<Rightarrow> string \<Rightarrow> json \<Rightarrow> json" where
  "where_in col cond v =
     JObject [(''where'', JObject [(''column'', JString col), (''condition'', JString cond),
                                   (''value'', v)])]"

section \<open>Storage engine: aggregates of a select\<close>

definition F_DATEH24_US :: string where
  "F_DATEH24_US = ''YYYY-MM-DD HH24:MI:SS.US''"

definition to_char_user_ts :: string where
  "to_char_user_ts = ''to_char(user_ts, '' @ [CHR 0x27] @ F_DATEH24_US @ [CHR 0x27] @ '')''"

text \<open>The loop over the \<open>properties\<close> array of a \<open>json\<close> aggregate in the object
  form: the state is the select text, the constraint text, the element count
  and the previous property.\<close>

fun props_object_form ::
  "json list \<Rightarrow> string \<Rightarrow> string \<Rightarrow> nat \<Rightarrow> string \<Rightarrow> (string \<times> string \<times> string) outcome" where
  "props_object_form [] sql jc field prev = Ok (sql, jc, prev)"
| "props_object_form (p # ps) sql jc field prev =
     (case GetString (Some p) of
        Ok s \<Rightarrow>
          props_object_form ps
            ((if field \<noteq> 0 then sql @ ''->>'' else sql) @ [CHR 0x27] @ s @ [CHR 0x27])
            (if length prev > 0 then jc @ ''->>'' @ [CHR 0x27] @ prev @ [CHR 0x27] else jc)
            (field + 1) s
      | Fail op msg \<Rightarrow> Fail op msg
      | Abort \<Rightarrow> Abort)"

text \<open>The same loop in the array form of the aggregates, which writes the arrow
  before every property.\<close>

fun props_array_form ::
  "json list \<Rightarrow> string \<Rightarrow> string \<Rightarrow> string \<Rightarrow> (string \<times> string \<times> string) outcome" where
  "props_array_form [] sql jc prev = Ok (sql, jc, prev)"
| "props_array_form (p # ps) sql jc prev =
     (case GetString (Some p) of
        Ok s \<Rightarrow>
          props_array_form ps
            (sql @ ''->>'' @ [CHR 0x27] @ s @ [CHR 0x27])
            (if length prev > 0 then jc @ ''->>'' @ [CHR 0x27] @ prev @ [CHR 0x27] else jc)
            s
      | Fail op msg \<Rightarrow> Fail op msg
      | Abort \<Rightarrow> Abort)"

text \<open>The \<open>json\<close> branch of one aggregate, in the object form and in the array
  form.\<close>

definition json_object_form :: "json \<Rightarrow> string \<Rightarrow> string \<Rightarrow> (string \<times> string) outcome" where
  \<open>json_object_form j sql jc =
     (case j of
        JObject js \<Rightarrow>
          if \<not> HasMember js ''column'' then
            Fail ''retrieve'' ''The json property is missing a column property''
          else
            (case GetString (map_of js ''column'') of
               Ok jcol \<Rightarrow>
                 (let sql1 = sql @ ''('' @ [CHR 0x22] @ jcol @ [CHR 0x22] @ ''->'' in
                  if \<not> HasMember js ''properties'' then
                    Fail ''retrieve'' ''The json property is missing a properties property''
                  else
                    (case map_of js ''properties'' of
                       Some (JArray ps) \<Rightarrow>
                         (case props_object_form ps sql1
                                 ((if jc \<noteq> [] then jc @ '' AND '' else jc) @ jcol) 0 [] of
                            Ok (sql2, jc2, prev) \<Rightarrow>
                              Ok (sql2 @ '')::float'',
                                  jc2 @ '' ? '' @ [CHR 0x27] @ prev @ [CHR 0x27])
                          | Fail op msg \<Rightarrow> Fail op msg
                          | Abort \<Rightarrow> Abort)
                     | Some (JString s) \<Rightarrow>
                         Ok (sql1 @ [CHR 0x27] @ s @ [CHR 0x27] @ '')::float'',
                             (if jc \<noteq> [] then jc @ '' AND '' else jc) @ jcol
                               @ '' ? '' @ [CHR 0x27] @ s @ [CHR 0x27])
                     | _ \<Rightarrow> Abort))
             | Fail op msg \<Rightarrow> Fail op msg
             | Abort \<Rightarrow> Abort)
      | _ \<Rightarrow> Fail ''Select aggregation'' ''The json property must be an object'')\<close>

definition json_array_form :: "json \<Rightarrow> string \<Rightarrow> string \<Rightarrow> (string \<times> string) outcome" where
  \<open>json_array_form j sql jc =
     (case j of
        JObject js \<Rightarrow>
          if \<not> HasMember js ''column'' then
            Fail ''retrieve'' ''The json property is missing a column property''
          else
            (case GetString (map_of js ''column'') of
               Ok jcol \<Rightarrow>
                 (let sql1 = sql @ ''('' @ [CHR 0x22] @ jcol @ [CHR 0x22] in
                  if \<not> HasMember js ''properties'' then
                    Fail ''retrieve'' ''The json property is missing a properties property''
                  else
                    (let jc1 = (if jc \<noteq> [] then jc @ '' AND '' else jc) @ jcol in
                     case map_of js ''properties'' of
                       Some (JArray ps) \<Rightarrow>
                         (case props_array_form ps sql1 jc1 [] of
                            Ok (sql2, jc2, prev) \<Rightarrow>
                              Ok (sql2 @ '')::float'',
                                  jc2 @ '' ? '' @ [CHR 0x27] @ prev @ [CHR 0x27])
                          | Fail op msg \<Rightarrow> Fail op msg
                          | Abort \<Rightarrow> Abort)
                     | Some (JString s) \<Rightarrow>
                         Ok (sql1 @ ''->>'' @ [CHR 0x27] @ s @ [CHR 0x27] @ '')::float'',
                             jc1 @ '' ? '' @ [CHR 0x27] @ s @ [CHR 0x27])
                     | _ \<Rightarrow> Abort))
             | Fail op msg \<Rightarrow> Fail op msg
             | Abort \<Rightarrow> Abort)
      | _ \<Rightarrow> Fail ''Select aggregation'' ''The json property must be an object'')\<close>

text \<open>The closing of one aggregate: the alias, or the operation and the column
  joined by an underscore.\<close>

definition aggregate_alias :: "(string \<times> json) list \<Rightarrow> string \<Rightarrow> string \<Rightarrow> string outcome" where
  \<open>aggregate_alias ms op sql =
     (let sql1 = sql @ '') AS '' @ [CHR 0x22] in
      if HasMember ms ''alias'' then
        (case GetString (map_of ms ''alias'') of
           Ok a \<Rightarrow> Ok (sql1 @ a @ [CHR 0x22])
         | Fail o1 msg \<Rightarrow> Fail o1 msg
         | Abort \<Rightarrow> Abort)
      else
        (case GetString (map_of ms ''column'') of
           Ok c \<Rightarrow> Ok (sql1 @ op @ ''_'' @ c @ [CHR 0x22])
         | Fail o1 msg \<Rightarrow> Fail o1 msg
         | Abort \<Rightarrow> Abort))\<close>

text \<open>The object form of \<open>aggregate\<close> in \<open>Connection::jsonAggregates\<close>.\<close>

definition aggregate_object ::
  "bool \<Rightarrow> (string \<times> json) list \<Rightarrow> string \<Rightarrow> string \<Rightarrow> (string \<times> string) outcome" where
  \<open>aggregate_object isTableReading ms sql jc =
     (if \<not> HasMember ms ''operation'' then
        Fail ''Select aggregation'' ''Missing property "operation"''
      else if \<not> HasMember ms ''column'' \<and> \<not> HasMember ms ''json'' then
        Fail ''Select aggregation'' ''Missing property "column" or "json"''
      else
        (case GetString (map_of ms ''column'') of
           Ok column_name \<Rightarrow>
             (case GetString (map_of ms ''operation'') of
                Ok op \<Rightarrow>
                  (let sql1 = sql @ op @ ''('' in
                   case (if HasMember ms ''column'' then
                           (if op \<noteq> ''count'' then
                              (if isTableReading \<and> column_name = ''user_ts''
                               then Ok (sql1 @ to_char_user_ts, jc)
                               else Ok (sql1 @ [CHR 0x22] @ column_name @ [CHR 0x22], jc))
                            else Ok (sql1 @ column_name, jc))
                         else if HasMember ms ''json'' then
                           json_object_form (the (map_of ms ''json'')) sql1 jc
                         else Ok (sql1, jc)) of
                     Ok (sql2, jc2) \<Rightarrow>
                       (case aggregate_alias ms op sql2 of
                          Ok sql3 \<Rightarrow> Ok (sql3, jc2)
                        | Fail o1 msg \<Rightarrow> Fail o1 msg
                        | Abort \<Rightarrow> Abort)
                   | Fail o1 msg \<Rightarrow> Fail o1 msg
                   | Abort \<Rightarrow> Abort)
              | Fail o1 msg \<Rightarrow> Fail o1 msg
              | Abort \<Rightarrow> Abort)
         | Fail o1 msg \<Rightarrow> Fail o1 msg
         | Abort \<Rightarrow> Abort))\<close>

text \<open>The array form: the loop over the elements, \<open>index\<close> counting the
  aggregates written so far. The flag \<open>isTableReading\<close> is not consulted
  here.\<close>

fun aggregate_array ::
  "json list \<Rightarrow> nat \<Rightarrow> string \<Rightarrow> string \<Rightarrow> (string \<times> string) outcome" where
  \<open>aggregate_array [] index sql jc = Ok (sql, jc)\<close>
| \<open>aggregate_array (itr # rest) index sql jc =
     (case itr of
        JObject ms \<Rightarrow>
          if \<not> HasMember ms ''column'' \<and> \<not> HasMember ms ''json'' then
            Fail ''Select aggregation'' ''Missing property "column"''
          else if \<not> HasMember ms ''operation'' then
            Fail ''Select aggregation'' ''Missing property "operation"''
          else
            (case GetString (map_of ms ''operation'') of
               Ok op \<Rightarrow>
                 (let sql1 = (if index \<noteq> 0 then sql @ '', '' else sql) @ op @ ''('' in
                  case (if HasMember ms ''column'' then
                          (case GetString (map_of ms ''column'') of
                             Ok column_name \<Rightarrow>
                               if column_name = ''user_ts'' then Ok (sql1 @ to_char_user_ts, jc)
                               else Ok (sql1 @ [CHR 0x22] @ column_name @ [CHR 0x22], jc)
                           | Fail o1 msg \<Rightarrow> Fail o1 msg
                           | Abort \<Rightarrow> Abort)
                        else json_array_form (the (map_of ms ''json'')) sql1 jc) of
                    Ok (sql2, jc2) \<Rightarrow>
                      (case aggregate_alias ms op sql2 of
                         Ok sql3 \<Rightarrow> aggregate_array rest (index + 1) sql3 jc2
                       | Fail o1 msg \<Rightarrow> Fail o1 msg
                       | Abort \<Rightarrow> Abort)
                  | Fail o1 msg \<Rightarrow> Fail o1 msg
                  | Abort \<Rightarrow> Abort)
             | Fail o1 msg \<Rightarrow> Fail o1 msg
             | Abort \<Rightarrow> Abort)
      | _ \<Rightarrow> Fail ''select aggregation''
               ''Each element in the aggregate array must be an object'')\<close>

text \<open>The \<open>group\<close> and the \<open>timebucket\<close> part of \<open>jsonAggregates\<close>.\<close>

definition aggregate_group :: "(string \<times> json) list \<Rightarrow> string \<Rightarrow> string outcome" where
  \<open>aggregate_group payload sql =
     (if HasMember payload ''group'' then
        (let sql1 = sql @ '', '' in
         case map_of payload ''group'' of
           Some (JObject grp) \<Rightarrow>
             (case GetString (map_of grp ''column'') of
                Ok c \<Rightarrow>
                  (case (if HasMember grp ''format'' then
                           (case GetString (map_of grp ''format'') of
                              Ok f \<Rightarrow> Ok (sql1 @ ''to_char('' @ [CHR 0x22] @ c @ [CHR 0x22]
                                            @ '', '' @ [CHR 0x27] @ f @ [CHR 0x27] @ '')'')
                            | Fail o1 msg \<Rightarrow> Fail o1 msg
                            | Abort \<Rightarrow> Abort)
                         else Ok (sql1 @ [CHR 0x22] @ c @ [CHR 0x22])) of
                     Ok sql2 \<Rightarrow>
                       if HasMember grp ''alias'' then
                         (case GetString (map_of grp ''alias'') of
                            Ok a \<Rightarrow> Ok (sql2 @ '' AS '' @ [CHR 0x22] @ a @ [CHR 0x22])
                          | Fail o1 msg \<Rightarrow> Fail o1 msg
                          | Abort \<Rightarrow> Abort)
                       else Ok (sql2 @ '' AS '' @ [CHR 0x22] @ c @ [CHR 0x22])
                   | Fail o1 msg \<Rightarrow> Fail o1 msg
                   | Abort \<Rightarrow> Abort)
              | Fail o1 msg \<Rightarrow> Fail o1 msg
              | Abort \<Rightarrow> Abort)
         | g \<Rightarrow>
             (case GetString g of
                Ok c \<Rightarrow> Ok (sql1 @ [CHR 0x22] @ c @ [CHR 0x22])
              | Fail o1 msg \<Rightarrow> Fail o1 msg
              | Abort \<Rightarrow> Abort))
      else Ok sql)\<close>

definition aggregate_timebucket :: "(string \<times> json) list \<Rightarrow> string \<Rightarrow> string outcome" where
  \<open>aggregate_timebucket payload sql =
     (if HasMember payload ''timebucket'' then
        (case map_of payload ''timebucket'' of
           Some (JObject tb) \<Rightarrow>
             if \<not> HasMember tb ''timestamp'' then
               Fail ''Select data'' ''The "timebucket" object must have a timestamp property''
             else
               (case (GetString (map_of tb ''timestamp''),
                      if HasMember tb ''size'' then GetString (map_of tb ''size'') else Ok ''1'',
                      if HasMember tb ''format'' then GetString (map_of tb ''format'') else Ok [],
                      if HasMember tb ''alias'' then GetString (map_of tb ''alias'')
                      else Ok ''timestamp'') of
                  (Ok ts, Ok sz, Ok fmt, Ok alias) \<Rightarrow>
                    Ok (sql
                        @ (if HasMember tb ''format'' then '', to_char(to_timestamp(''
                           else '', to_timestamp('')
                        @ (if HasMember tb ''size'' then sz @ '' * '' else [])
                        @ ''floor(extract(epoch from '' @ ts @ '') / '' @ sz @ ''))''
                        @ (if HasMember tb ''format''
                           then '', '' @ [CHR 0x27] @ fmt @ [CHR 0x27] @ '')'' else [])
                        @ '' AS '' @ [CHR 0x22] @ alias @ [CHR 0x22])
                | _ \<Rightarrow> Abort)
         | _ \<Rightarrow> Fail ''Select data'' ''The "timebucket" property must be an object'')
      else Ok sql)\<close>

text \<open>\<open>Connection::jsonAggregates\<close>: the select text and the text of the extra
  constraints after the aggregates, the group and the time bucket.\<close>

definition jsonAggregates ::
  "(string \<times> json) list \<Rightarrow> json \<Rightarrow> string \<Rightarrow> string \<Rightarrow> bool \<Rightarrow> (string \<times> string) outcome" where
  "jsonAggregates payload aggregates sql jsonConstraint isTableReading =
     (case (case aggregates of
              JObject ms \<Rightarrow> aggregate_object isTableReading ms sql jsonConstraint
            | JArray elems \<Rightarrow> aggregate_array elems 0 sql jsonConstraint
            | _ \<Rightarrow> Ok (sql, jsonConstraint)) of
        Ok (sql1, jc1) \<Rightarrow>
          (case aggregate_group payload sql1 of
             Ok sql2 \<Rightarrow>
               (case aggregate_timebucket payload sql2 of
                  Ok sql3 \<Rightarrow> Ok (sql3, jc1)
                | Fail o1 msg \<Rightarrow> Fail o1 msg
                | Abort \<Rightarrow> Abort)
           | Fail o1 msg \<Rightarrow> Fail o1 msg
           | Abort \<Rightarrow> Abort)
      | Fail o1 msg \<Rightarrow> Fail o1 msg
      | Abort \<Rightarrow> Abort)"

text \<open>The aggregate branch of \<open>Connection::retrieve\<close> (a common table, the flag is
  false) and of \<open>Connection::retrieveReadings\<close> (the table \<open>readings\<close>, the flag is
  true), for a document with an \<open>aggregate\<close> member: the select text up to the
  table name.\<close>

definition select_aggregate :: "bool \<Rightarrow> string \<Rightarrow> (string \<times> json) list \<Rightarrow> string outcome" where
  "select_aggregate isTableReading table document =
     (case (if HasMember document ''modifier''
            then (case GetString (map_of document ''modifier'') of
                    Ok m \<Rightarrow> Ok (''SELECT '' @ m @ '' '')
                  | Fail o1 msg \<Rightarrow> Fail o1 msg
                  | Abort \<Rightarrow> Abort)
            else Ok ''SELECT '') of
        Ok sql \<Rightarrow>
          (case jsonAggregates document (the (map_of document ''aggregate'')) sql []
                  isTableReading of
             Ok (sql1, jc) \<Rightarrow> Ok (sql1 @ '' FROM foglamp.'' @ table)
           | Fail o1 msg \<Rightarrow> Fail o1 msg
           | Abort \<Rightarrow> Abort)
      | Fail o1 msg \<Rightarrow> Fail o1 msg
      | Abort \<Rightarrow> Abort)"

definition retrieve_aggregate :: "string \<Rightarrow> (string \<times> json) list \<Rightarrow> string outcome" where
  "retrieve_aggregate table document = select_aggregate False table document"

definition retrieveReadings_aggregate :: "(string \<times> json) list \<Rightarrow> string outcome" where
  "retrieveReadings_aggregate document = select_aggregate True ''readings'' document"

text \<open>Sample queries: one aggregate with an operation and a column, in the
  object form and as the only element of the array form.\<close>

definition agg_object :: "string \<Rightarrow> string \<Rightarrow> (string \<times> json) list" where
  "agg_object op col =
     [(''aggregate'', JObject [(''operation'', JString op), (''column'', JString col)])]"

definition agg_array :: "string \<Rightarrow> string \<Rightarrow> (string \<times> json) list" where
  "agg_array op col =
     [(''aggregate'', JArray [JObject [(''operation'', JString op), (''column'', JString col)]])]"

(*PROPERTIES*)
section \<open>Properties of the OMF emitter\<close>

lemma dp_step_asset:
  "dp_step supp an ut (out, nd, st) dp = (out', nd', st') \<Longrightarrow>
     length (filter (is_asset a) out') = length (filter (is_asset a) out) \<and> assetSent st' = assetSent st"
  by (auto simp: dp_step_def sendContainer_def is_asset_def Let_def split: if_splits option.splits dp_tag.splits prod.splits)

lemma dp_step_link:
  "dp_step supp an ut (out, nd, st) dp = (out', nd', st') \<Longrightarrow>
     length (filter (is_link l) out') + budget (linkSent st') l \<le> length (filter (is_link l) out) + budget (linkSent st) l"
  by (auto simp: dp_step_def sendContainer_def is_link_def budget_def Let_def split: if_splits option.splits dp_tag.splits prod.splits)

lemma dp_step_container:
  "dp_step supp an ut (out, nd, st) dp = (out', nd', st') \<Longrightarrow>
     length (filter (has_id k) (containers st')) + budget (containerSent st') k
       \<le> length (filter (has_id k) (containers st)) + budget (containerSent st) k"
  by (auto simp: dp_step_def sendContainer_def has_id_def budget_def Let_def split: if_splits option.splits dp_tag.splits prod.splits)

lemma foldl_dp_step_inv:
  "foldl (dp_step supp an ut) (out, nd, st) dps = (out', nd', st') \<Longrightarrow>
     length (filter (is_asset a) out') = length (filter (is_asset a) out)
   \<and> assetSent st' = assetSent st
   \<and> length (filter (is_link l) out') + budget (linkSent st') l
       \<le> length (filter (is_link l) out) + budget (linkSent st) l
   \<and> length (filter (has_id k) (containers st')) + budget (containerSent st') k
       \<le> length (filter (has_id k) (containers st)) + budget (containerSent st) k"
proof (induction dps arbitrary: out nd st)
  case Nil
  then show ?case by simp
next
  case (Cons dp dps)
  obtain out1 nd1 st1 where s: "dp_step supp an ut (out, nd, st) dp = (out1, nd1, st1)"
    by (cases "dp_step supp an ut (out, nd, st) dp") auto
  from Cons.prems s have r: "foldl (dp_step supp an ut) (out1, nd1, st1) dps = (out', nd', st')"
    by simp
  from Cons.IH [OF r] dp_step_asset [OF s, of a] dp_step_link [OF s, of l]
    dp_step_container [OF s, of k]
  show ?case by simp
qed

lemma processReading_inv:
  assumes "processReading supp rd hints st = (out, st')"
  shows "length (filter (is_asset a) out) + budget (assetSent st') a \<le> budget (assetSent st) a"
    and "length (filter (is_link l) out) + budget (linkSent st') l \<le> budget (linkSent st) l"
    and "length (filter (has_id k) (containers st')) + budget (containerSent st') k
           \<le> length (filter (has_id k) (containers st)) + budget (containerSent st) k"
proof -
  let ?an = "hinted_name (r_asset rd) hints"
  let ?s0 = "(case assetSent st ?an of
                  None \<Rightarrow> ([AssetRec ?an], True, st\<lparr>assetSent := (assetSent st)(?an \<mapsto> True)\<rparr>)
                | Some _ \<Rightarrow> ([], False, st))"
  obtain out0 nd0 st0 where s0: "?s0 = (out0, nd0, st0)" by (cases ?s0) auto
  obtain nd' where f: "foldl (dp_step supp ?an (r_usertime rd)) (out0, nd0, st0) (r_data rd) = (out, nd', st')"
    using assms s0 by (auto simp: processReading_def Let_def split: prod.splits)
  have a0: "length (filter (is_asset a) out0) + budget (assetSent st0) a \<le> budget (assetSent st) a"
    using s0 by (auto simp: is_asset_def budget_def split: option.splits if_splits)
  have l0: "filter (is_link l) out0 = [] \<and> linkSent st0 = linkSent st"
    using s0 by (auto simp: is_link_def split: option.splits)
  have c0: "containers st0 = containers st \<and> containerSent st0 = containerSent st"
    using s0 by (auto split: option.splits)
  from foldl_dp_step_inv [OF f, of a l k] a0 l0 c0
  show "length (filter (is_asset a) out) + budget (assetSent st') a \<le> budget (assetSent st) a"
    and "length (filter (is_link l) out) + budget (linkSent st') l \<le> budget (linkSent st) l"
    and "length (filter (has_id k) (containers st')) + budget (containerSent st') k
           \<le> length (filter (has_id k) (containers st)) + budget (containerSent st) k"
    by simp_all
qed

lemma process_all_inv:
  "process_all supp calls st = (out, st') \<Longrightarrow>
     length (filter (is_asset a) out) + budget (assetSent st') a \<le> budget (assetSent st) a
   \<and> length (filter (is_link l) out) + budget (linkSent st') l \<le> budget (linkSent st) l
   \<and> length (filter (has_id k) (containers st')) + budget (containerSent st') k
           \<le> length (filter (has_id k) (containers st)) + budget (containerSent st) k"
proof (induction calls arbitrary: st out st')
  case Nil
  then show ?case by simp
next
  case (Cons c cs)
  obtain o1 st1 where p: "processReading supp (fst c) (snd c) st = (o1, st1)"
    by (cases "processReading supp (fst c) (snd c) st") auto
  obtain o2 stnew where q: "process_all supp cs st1 = (o2, stnew)"
    by (cases "process_all supp cs st1") auto
  from Cons.prems p q have e: "out = o1 @ o2" "st' = stnew" by simp_all
  from Cons.IH [OF q] processReading_inv(1) [OF p, of a] processReading_inv(2) [OF p, of l]
    processReading_inv(3) [OF p, of k] e
  show ?case by simp
qed











text \<open>The list of pending containers renders to the text that \<open>sendContainer\<close>
  builds by appending: a comma goes before every container but the first, and
  the text is empty exactly when the list is.\<close>

lemma render_containers_snoc:
  "render_containers (cs @ [c]) =
     (if cs = [] then render_container c
      else render_containers cs @ '','' @ render_container c)"
  by (induction cs rule: render_containers.induct) auto

lemma render_containers_empty_iff: "(render_containers cs = []) = (cs = [])"
  by (induction cs rule: render_containers.induct) (auto simp: render_container_def)


text \<open>
  Claim C9. After every call of \<open>flushContainers\<close> the pending buffer is empty and
  nothing else of the emitter has changed, whatever the sender does: a 2xx
  status, another status, \<open>BadRequest\<close> or another exception. With an empty
  buffer the call returns true and makes no request; otherwise it makes exactly
  one request, with the bracketed pending containers as its payload, and returns
  true exactly when the status is in 200..299.
\<close>

theorem flushContainers_always_empties_buffer:
  "snd (snd (flushContainers sendRequest st)) = st\<lparr>containers := []\<rparr>
   \<and> containers (snd (snd (flushContainers sendRequest st))) = []
   \<and> flushContainers sendRequest (st\<lparr>containers := []\<rparr>) = (True, [], st\<lparr>containers := []\<rparr>)
   \<and> fst (snd (flushContainers sendRequest st))
       = (if containers st = [] then []
          else [''['' @ render_containers (containers st) @ '']''])
   \<and> fst (flushContainers sendRequest st)
       = (containers st = [] \<or>
          (\<exists>res. sendRequest (''['' @ render_containers (containers st) @ '']'') = HttpStatus res
                 \<and> 200 \<le> res \<and> res \<le> 299))"
  by (cases "sendRequest (''['' @ render_containers (containers st) @ '']'')")
     (auto simp: flushContainers_def Let_def)

text \<open>
  Claim C10. When the asset name is not yet in the sent-assets table and every
  datapoint of the reading is skipped (it is the reserved \<open>OMFHint\<close> datapoint or
  its type is not supported), the call returns the \<open>FledgeAsset\<close> record alone
  and records the asset as sent, changing nothing else; and no sequence of later
  calls returns the \<open>FledgeAsset\<close> record of that asset again.
\<close>

theorem asset_record_alone_when_all_skipped:
  assumes "assetSent st (hinted_name (r_asset rd) hints) = None"
    and "list_all (\<lambda>dp. dp_name dp = OMF_HINT \<or> \<not> supp (dp_type dp)) (r_data rd)"
  shows "processReading supp rd hints st
           = ([AssetRec (hinted_name (r_asset rd) hints)],
              st\<lparr>assetSent := (assetSent st)(hinted_name (r_asset rd) hints \<mapsto> True)\<rparr>)
         \<and> filter (is_asset (hinted_name (r_asset rd) hints))
             (fst (process_all supp later (snd (processReading supp rd hints st)))) = []"
proof -
  let ?a = "hinted_name (r_asset rd) hints"
  have skip: "list_all (\<lambda>dp. dp_name dp = OMF_HINT \<or> \<not> supp (dp_type dp)) dps \<Longrightarrow>
              foldl (dp_step supp ?a ut) (out, nd, s) dps = (out, nd, s)" for dps ut out nd s
    by (induction dps) (auto simp: dp_step_def)
  have first: "processReading supp rd hints st
           = ([AssetRec ?a], st\<lparr>assetSent := (assetSent st)(?a \<mapsto> True)\<rparr>)"
    using assms skip by (simp add: processReading_def Let_def)
  obtain out st' where
    p: "process_all supp later (st\<lparr>assetSent := (assetSent st)(?a \<mapsto> True)\<rparr>) = (out, st')"
    by (cases "process_all supp later (st\<lparr>assetSent := (assetSent st)(?a \<mapsto> True)\<rparr>)") auto
  from process_all_inv [OF p, of ?a "[]" "[]"] have "length (filter (is_asset ?a) out) = 0"
    by (simp add: budget_def)
  with first p show ?thesis by simp
qed

theorem asset_record_alone_when_all_skipped_witness:
  "assetSent new_emitter (hinted_name (r_asset skipped_reading) None) = None
   \<and> list_all (\<lambda>dp. dp_name dp = OMF_HINT \<or> \<not> demo_supported (dp_type dp)) (r_data skipped_reading)
   \<and> processReading demo_supported skipped_reading None new_emitter
       = ([AssetRec (hinted_name (r_asset skipped_reading) None)],
          new_emitter\<lparr>assetSent :=
            (assetSent new_emitter)(hinted_name (r_asset skipped_reading) None \<mapsto> True)\<rparr>)
   \<and> filter (is_asset (hinted_name (r_asset skipped_reading) None))
        (fst (process_all demo_supported
           [(skipped_reading, None), (demo_reading, Some [OMFTagHint ''pump''])]
           (snd (processReading demo_supported skipped_reading None new_emitter)))) = []"
proof -
  have h1: "assetSent new_emitter (hinted_name (r_asset skipped_reading) None) = None"
    by (simp add: new_emitter_def)
  have h2: "list_all (\<lambda>dp. dp_name dp = OMF_HINT \<or> \<not> demo_supported (dp_type dp))
              (r_data skipped_reading)"
    by (simp add: skipped_reading_def OMF_HINT_def demo_supported_def)
  from asset_record_alone_when_all_skipped [OF h1 h2,
      of "[(skipped_reading, None), (demo_reading, Some [OMFTagHint ''pump''])]"] h1 h2
  show ?thesis by blast
qed

text \<open>The memoisation scenario of the spec, as text: the first call returns the
  asset record, the link record and the value record, the second the value
  record only, and the flush posts one container.\<close>

lemma omf_scenario_two_calls:
  \<open>render_out (fst (processReading demo_supported demo_reading None new_emitter))
     = ''{ "typeid":"FledgeAsset", "values":[ { "AssetId":"sensor","Name":"sensor"} ] },{ "typeid":"__Link","values":[ { "source" : {"typeid": "FledgeAsset","index":"sensor" }, "target" : {"containerid" : "sensor_temp" } } ] },{"containerid": "sensor_temp", "values": [{"Double": 21.5, "Time": "2024-01-02 03:04:05.100000Z"} ] }''\<close>
  \<open>render_out (fst (processReading demo_supported demo_reading None
          (snd (processReading demo_supported demo_reading None new_emitter))))
     = ''{"containerid": "sensor_temp", "values": [{"Double": 21.5, "Time": "2024-01-02 03:04:05.100000Z"} ] }''\<close>
  \<open>fst (snd (flushContainers (\<lambda>payload. HttpStatus 200)
          (snd (processReading demo_supported demo_reading None
             (snd (processReading demo_supported demo_reading None new_emitter))))))
     = [''[{ "id" : "sensor_temp", "typeid" : "Double", "name" : "temp", "datasource" : "Fledge" }]'']\<close>
  by (simp_all add: processReading_def dp_step_def sendContainer_def demo_reading_def
        demo_supported_def new_emitter_def hinted_name_def OMF_HINT_def Let_def render_out_def
        render_item_def flushContainers_def render_container_def)

section \<open>Properties of the LazyJSON scanner\<close>

text \<open>What the search loop finds: the comparison looks at the first \<open>len\<close>
  characters of the quoted key only, that is the opening quote and all but the
  last character of the name, at every position from the start of the frame to
  before its end.\<close>

lemma strncmp_eq_take: "strncmp_eq a b n = (take n a = take n b)"
  by (induction a b n rule: strncmp_eq.induct) auto

lemma attribute_loop_found_iff:
  "(attribute_loop doc searchFor len oe p \<noteq> NULL)
     = (\<exists>q. p \<le> q \<and> q < oe \<and> take len (drop q doc) = take len searchFor)"
proof (induction doc searchFor len oe p rule: attribute_loop.induct)
  case (1 doc searchFor len oe p)
  show ?case
  proof (cases "p < oe")
    case False
    then show ?thesis by (subst attribute_loop.simps) auto
  next
    case True
    show ?thesis
    proof (cases "strncmp_eq (drop p doc) searchFor len")
      case m: True
      have "attribute_loop doc searchFor len oe p \<noteq> NULL"
        using True m by (subst attribute_loop.simps) auto
      moreover have "\<exists>q. p \<le> q \<and> q < oe \<and> take len (drop q doc) = take len searchFor"
        using True m by (auto simp: strncmp_eq_take)
      ultimately show ?thesis by blast
    next
      case m: False
      have e: "attribute_loop doc searchFor len oe p = attribute_loop doc searchFor len oe (p + 1)"
        using True m by (subst attribute_loop.simps) auto
      have "(\<exists>q. p \<le> q \<and> q < oe \<and> take len (drop q doc) = take len searchFor)
              = (\<exists>q. p + 1 \<le> q \<and> q < oe \<and> take len (drop q doc) = take len searchFor)"
      proof
        assume "\<exists>q. p \<le> q \<and> q < oe \<and> take len (drop q doc) = take len searchFor"
        then obtain q where q: "p \<le> q" "q < oe" "take len (drop q doc) = take len searchFor"
          by blast
        with m have "q \<noteq> p" by (auto simp: strncmp_eq_take)
        with q show "\<exists>q. p + 1 \<le> q \<and> q < oe \<and> take len (drop q doc) = take len searchFor"
          by (intro exI [of _ q]) auto
      next
        assume "\<exists>q. p + 1 \<le> q \<and> q < oe \<and> take len (drop q doc) = take len searchFor"
        then show "\<exists>q. p \<le> q \<and> q < oe \<and> take len (drop q doc) = take len searchFor"
          by (meson add_leD1)
      qed
      with e "1.IH" [OF True m] show ?thesis by simp
    qed
  qed
qed

lemma take_quoted_key:
  "take (length name) ([CHR 0x22] @ name @ [CHR 0x22]) = take (length name) (CHR 0x22 # name)"
proof -
  have "take (length name) ((CHR 0x22 # name) @ [CHR 0x22]) = take (length name) (CHR 0x22 # name)"
    by (subst take_append) simp
  then show ?thesis by simp
qed

lemma getAttribute_found_iff:
  "(getAttribute doc m_state name \<noteq> NULL)
     = (inObject m_state \<and>
        (\<exists>oe q. objectEnd m_state = Some oe \<and> object m_state \<le> q \<and> q < oe \<and>
           take (length name) (drop q doc) = take (length name) (CHR 0x22 # name)))"
proof (cases "inObject m_state")
  case False
  then show ?thesis by (simp add: getAttribute_def)
next
  case True
  show ?thesis
  proof (cases "objectEnd m_state")
    case None
    with True show ?thesis by (simp add: getAttribute_def Let_def)
  next
    case (Some oe)
    have "(getAttribute doc m_state name \<noteq> NULL)
            = (attribute_loop doc ([CHR 0x22] @ name @ [CHR 0x22]) (length name) oe
                 (object m_state) \<noteq> NULL)"
      using True Some by (simp add: getAttribute_def Let_def)
    also have "\<dots> = (\<exists>q. object m_state \<le> q \<and> q < oe \<and>
                       take (length name) (drop q doc) = take (length name) (CHR 0x22 # name))"
      unfolding attribute_loop_found_iff take_quoted_key ..
    finally show ?thesis using True Some by simp
  qed
qed

text \<open>
  Claim C4, evaluated on the source. In the document \<open>{"ab":1}\<close> the name \<open>ac\<close>
  is not a key, yet \<open>getAttribute\<close> returns a cursor, the one at the value \<open>1\<close>
  of the key \<open>ab\<close>, as it does for the name \<open>ab\<close> itself: the comparison stops
  two characters short of the quoted key. In the document \<open>{"k":"ab"}\<close> the name
  \<open>ab\<close> is found in the text of the string value, while a name that shares no
  quoted prefix with any text of the frame gives NULL.
\<close>

theorem getAttribute_matches_shorter_prefix:
  "getAttribute doc_ab (LazyJSON doc_ab) ''ac'' = Ptr 6
   \<and> cchar doc_ab 6 = CHR ''1''
   \<and> getAttribute doc_ab (LazyJSON doc_ab) ''ab'' = Ptr 6
   \<and> getAttribute doc_val (LazyJSON doc_val) ''zb'' = NULL
   \<and> getAttribute doc_val (LazyJSON doc_val) ''ab'' = Ptr 9"
  by code_simp

section \<open>Properties of the where clause and of delete\<close>










text \<open>The bad \<open>in\<close> clause of the spec's scenario, and a delete with a
  three-element \<open>not in\<close> list, as text.\<close>

lemma delete_in_scenario_empty:
  \<open>deleteRows demo_lib (\<lambda>q. CommandOk 3) ''t'' (Parsed (where_in ''c'' ''in'' (JArray [])))
     = Some \<lparr>returned = - 1,
             raised = [(''where clause'',
               ''The "value" of a "in" condition must be an array and must not be empty.'')],
             executed = []\<rparr>\<close>
  by code_simp

lemma delete_in_scenario_list:
  \<open>deleteRows demo_lib (\<lambda>q. CommandOk 3) ''t''
       (Parsed (where_in ''c'' ''not in''
          (JArray [JNumber (JInt 5), JString [CHR ''a'', CHR 0x27, CHR ''b''],
                   JNumber (JInt (- 120))])))
     = Some \<lparr>returned = 3, raised = [],
             executed = [''DELETE FROM foglamp.t WHERE "c" not in ( 5, '' @ [CHR 0x27]
                @ ''a'' @ [CHR 0x27, CHR 0x27] @ ''b'' @ [CHR 0x27] @ '', -120 );'']\<rparr>\<close>
  by code_simp

section \<open>Properties of the aggregates\<close>

text \<open>On the readings table an aggregate of the column \<open>user_ts\<close> with an
  operation other than \<open>count\<close> and no alias is written with the \<open>to_char\<close>
  wrapper and the alias \<open>operation_user_ts\<close>, in the object form and in the array
  form.\<close>

lemma readings_aggregate_user_ts:
  assumes "op \<noteq> ''count''"
  shows \<open>retrieveReadings_aggregate (agg_object op ''user_ts'')
           = Ok (''SELECT '' @ op @ ''('' @ to_char_user_ts @ '') AS "'' @ op @ ''_user_ts"''
                   @ '' FROM foglamp.readings'')\<close>
    and \<open>retrieveReadings_aggregate (agg_array op ''user_ts'')
           = Ok (''SELECT '' @ op @ ''('' @ to_char_user_ts @ '') AS "'' @ op @ ''_user_ts"''
                   @ '' FROM foglamp.readings'')\<close>
  using assms
  by (simp_all add: retrieveReadings_aggregate_def select_aggregate_def jsonAggregates_def
        agg_object_def agg_array_def aggregate_object_def aggregate_alias_def
        aggregate_group_def aggregate_timebucket_def HasMember_def GetString_def Let_def)

text \<open>
  Claim C6, evaluated on the source. On a common table \<open>t\<close> the aggregate
  \<open>min\<close> of the column \<open>user_ts\<close>, given in the array form, is written with the
  \<open>to_char\<close> wrapper of the readings table, although \<open>retrieve\<close> passes
  \<open>isTableReading = false\<close>: the array branch never looks at the flag. The same
  aggregate in the object form is written as the quoted column, and on the
  readings table the object form is wrapped and aliased \<open>avg_user_ts\<close>.
\<close>

theorem aggregate_array_wraps_user_ts_on_common_table:
  \<open>retrieve_aggregate ''t'' (agg_array ''min'' ''user_ts'')
     = Ok (''SELECT min(to_char(user_ts, '' @ [CHR 0x27] @ ''YYYY-MM-DD HH24:MI:SS.US''
             @ [CHR 0x27] @ '')) AS "min_user_ts" FROM foglamp.t'')
   \<and> retrieve_aggregate ''t'' (agg_object ''min'' ''user_ts'')
     = Ok ''SELECT min("user_ts") AS "min_user_ts" FROM foglamp.t''
   \<and> retrieveReadings_aggregate (agg_object ''avg'' ''user_ts'')
     = Ok (''SELECT avg(to_char(user_ts, '' @ [CHR 0x27] @ ''YYYY-MM-DD HH24:MI:SS.US''
             @ [CHR 0x27] @ '')) AS "avg_user_ts" FROM foglamp.readings'')\<close>
  by (simp add: retrieve_aggregate_def retrieveReadings_aggregate_def select_aggregate_def
        jsonAggregates_def agg_object_def agg_array_def aggregate_object_def
        aggregate_alias_def aggregate_group_def aggregate_timebucket_def HasMember_def
        GetString_def Let_def to_char_user_ts_def F_DATEH24_US_def)

end
